theory Spec2Isabelle
  imports Complex_Main "HOL-Library.Word"
begin

section \<open>JavaScript strings\<close>

text \<open>
  A JavaScript string is a sequence of UTF-16 code units, and \<open>.length\<close> counts them.
  The string literals of the source are ASCII; \<open>str\<close> embeds such a literal.
\<close>

type_synonym js_string = "16 word list"

definition str :: "string \<Rightarrow> js_string" where
  "str s = map (\<lambda>c. of_nat (of_char c)) s"

text \<open>
  \<open>String.prototype.trim\<close> removes leading and trailing code units that are WhiteSpace or
  LineTerminator in ECMAScript: TAB, LF, VT, FF, CR, SP, NBSP, U+1680, U+2000 to U+200A,
  U+2028, U+2029, U+202F, U+205F, U+3000 and U+FEFF.
\<close>

definition is_white_space :: "16 word \<Rightarrow> bool" where
  "is_white_space c \<longleftrightarrow>
     c \<in> set [0x0009, 0x000A, 0x000B, 0x000C, 0x000D, 0x0020, 0x00A0, 0x1680,
              0x2000, 0x2001, 0x2002, 0x2003, 0x2004, 0x2005, 0x2006, 0x2007,
              0x2008, 0x2009, 0x200A, 0x2028, 0x2029, 0x202F, 0x205F, 0x3000, 0xFEFF]"

definition trim :: "js_string \<Rightarrow> js_string" where
  "trim s = rev (dropWhile is_white_space (rev (dropWhile is_white_space s)))"

text \<open>
  A value that is a string, \<open>undefined\<close> or \<open>null\<close>. In an object given to
  \<open>JSON.stringify\<close>, a field that is \<open>undefined\<close> is left out and a field that is \<open>null\<close>
  is sent as \<open>null\<close>.
\<close>

datatype optional_string = Undefined | Null | Str js_string

text \<open>
  Truthiness: \<open>undefined\<close>, \<open>null\<close> and the empty string are falsy, every other string is
  truthy. \<open>s || undefined\<close> and \<open>x || null\<close> keep a truthy left operand and give the
  right operand otherwise.
\<close>

definition or_undefined :: "js_string \<Rightarrow> optional_string" where
  "or_undefined s = (if s = [] then Undefined else Str s)"

definition or_null :: "optional_string \<Rightarrow> optional_string" where
  "or_null x = (case x of Str s \<Rightarrow> if s = [] then Null else Str s | _ \<Rightarrow> Null)"

text \<open>Decimal rendering of a non-negative integer, as a template literal does for a number.\<close>

fun decimal_digits :: "nat \<Rightarrow> nat list" where
  "decimal_digits n = (if n < 10 then [n] else decimal_digits (n div 10) @ [n mod 10])"

declare decimal_digits.simps [simp del]

definition number_to_string :: "nat \<Rightarrow> js_string" where
  "number_to_string n = map (\<lambda>d. of_nat (48 + d)) (decimal_digits n)"

section \<open>Data model of the client (lib/types.ts)\<close>

record Source =
  source_id :: js_string
  score :: real
  domain :: js_string
  source :: js_string

record QueryResult =
  question :: js_string
  answer :: js_string
  sources :: "Source list"
  domains_searched :: "js_string list"
  query_time_seconds :: real

record QueryHistoryItem =
  item_id :: js_string
  item_question :: js_string
  item_answer :: js_string
  sources_count :: nat
  item_query_time_seconds :: real
  timestamp :: js_string
  bookmarked :: bool

section \<open>The API client (lib/api.ts)\<close>

text \<open>A thrown JavaScript value: an \<open>Error\<close> instance with its message, or any other value.\<close>

datatype thrown = Error js_string | NonError

text \<open>
  An error thrown by the platform, that is by \<open>fetch\<close>, \<open>Response.text\<close> or
  \<open>Response.json\<close>: a \<open>TypeError\<close>, \<open>DOMException\<close> or \<open>SyntaxError\<close>. Its message is a
  description of the failure ("Failed to fetch", "Unexpected token ...") and is not empty;
  it is given by its first code unit and the rest.
\<close>

datatype platform_error = PlatformError "16 word" js_string

definition thrown_by_platform :: "platform_error \<Rightarrow> thrown" where
  "thrown_by_platform p = (case p of PlatformError c cs \<Rightarrow> Error (c # cs))"

text \<open>
  What \<open>fetch\<close> gives back: the promise rejects, or it resolves to a response with
  its \<open>ok\<close> flag, its status, and the outcomes of reading the body as text and as JSON.
\<close>

record 'a response =
  ok :: bool
  status :: nat
  text_body :: "platform_error + js_string"
  json_body :: "platform_error + 'a"

datatype 'a fetch_outcome = Rejected platform_error | Resolved "'a response"

definition fetchAPI :: "'a fetch_outcome \<Rightarrow> thrown + 'a" where
  "fetchAPI out =
     (case out of
        Rejected p \<Rightarrow> Inl (thrown_by_platform p)
      | Resolved res \<Rightarrow>
          if \<not> ok res then
            (case text_body res of
               Inl p \<Rightarrow> Inl (thrown_by_platform p)
             | Inr detail \<Rightarrow>
                 Inl (Error (str ''API error '' @ number_to_string (status res)
                             @ str '': '' @ detail)))
          else (case json_body res of
                  Inl p \<Rightarrow> Inl (thrown_by_platform p)
                | Inr v \<Rightarrow> Inr v))"

text \<open>The body of \<open>POST /api/query\<close>, the object given to \<open>JSON.stringify\<close>.\<close>

record query_body =
  body_question :: js_string
  top_k :: int
  domain_filter :: optional_string
  source_type_filter :: optional_string
  classification_filter :: optional_string

record request =
  path :: string
  http_method :: string
  body :: query_body

text \<open>
  \<open>api.query(question, topK = 10, domainFilter?, sourceTypeFilter?, classificationFilter?)\<close>:
  a \<open>topK\<close> that is \<open>undefined\<close> is \<open>None\<close>, and the default applies then.
\<close>

definition api_query_request ::
  "js_string \<Rightarrow> int option \<Rightarrow> optional_string \<Rightarrow> optional_string \<Rightarrow> optional_string
    \<Rightarrow> request" where
  "api_query_request q topK domainFilter sourceTypeFilter classificationFilter =
     \<lparr>path = ''/api/query'', http_method = ''POST'',
      body = \<lparr>body_question = q,
              top_k = (case topK of None \<Rightarrow> 10 | Some k \<Rightarrow> k),
              domain_filter = or_null domainFilter,
              source_type_filter = or_null sourceTypeFilter,
              classification_filter = or_null classificationFilter\<rparr>\<rparr>"

text \<open>The network is the environment: it answers each request with a fetch outcome.\<close>

type_synonym network = "request \<Rightarrow> QueryResult fetch_outcome"

definition api_query ::
  "network \<Rightarrow> js_string \<Rightarrow> int option \<Rightarrow> optional_string \<Rightarrow> optional_string
    \<Rightarrow> optional_string \<Rightarrow> thrown + QueryResult" where
  "api_query net q topK domainFilter sourceTypeFilter classificationFilter =
     fetchAPI (net (api_query_request q topK domainFilter sourceTypeFilter classificationFilter))"

section \<open>The query store (stores/queryStore.ts)\<close>

record QueryStore =
  currentQuery :: js_string
  isLoading :: bool
  currentResult :: "QueryResult option"
  error :: "js_string option"
  domainFilter :: js_string
  sourceTypeFilter :: js_string
  classificationFilter :: js_string
  history :: "QueryHistoryItem list"

definition initial_store :: QueryStore where
  "initial_store =
     \<lparr>currentQuery = [], isLoading = False, currentResult = None, error = None,
      domainFilter = [], sourceTypeFilter = [], classificationFilter = [], history = []\<rparr>"

definition setQuery :: "js_string \<Rightarrow> QueryStore \<Rightarrow> QueryStore" where
  "setQuery query s = s\<lparr>currentQuery := query\<rparr>"

definition setDomainFilter :: "js_string \<Rightarrow> QueryStore \<Rightarrow> QueryStore" where
  "setDomainFilter f s = s\<lparr>domainFilter := f\<rparr>"

definition setSourceTypeFilter :: "js_string \<Rightarrow> QueryStore \<Rightarrow> QueryStore" where
  "setSourceTypeFilter f s = s\<lparr>sourceTypeFilter := f\<rparr>"

definition setClassificationFilter :: "js_string \<Rightarrow> QueryStore \<Rightarrow> QueryStore" where
  "setClassificationFilter f s = s\<lparr>classificationFilter := f\<rparr>"

definition clearResult :: "QueryStore \<Rightarrow> QueryStore" where
  "clearResult s = s\<lparr>currentResult := None, error := None\<rparr>"

text \<open>
  \<open>executeQuery\<close> reads the three filters, marks the store as loading, awaits
  \<open>api.query\<close> and then settles. The request is built from the filters read first.
\<close>

definition executeQuery_request :: "QueryStore \<Rightarrow> js_string \<Rightarrow> request" where
  "executeQuery_request s q =
     api_query_request q (Some 10) (or_undefined (domainFilter s))
       (or_undefined (sourceTypeFilter s)) (or_undefined (classificationFilter s))"

definition executeQuery_begin :: "js_string \<Rightarrow> QueryStore \<Rightarrow> QueryStore" where
  "executeQuery_begin q s = s\<lparr>isLoading := True, error := None, currentQuery := q\<rparr>"

text \<open>
  The history entry of a result; \<open>uuid\<close> is what \<open>crypto.randomUUID()\<close> returned and
  \<open>now\<close> what \<open>new Date().toISOString()\<close> returned.
\<close>

definition historyItem :: "js_string \<Rightarrow> js_string \<Rightarrow> QueryResult \<Rightarrow> QueryHistoryItem" where
  "historyItem uuid now result =
     \<lparr>item_id = uuid,
      item_question = question result,
      item_answer = answer result,
      sources_count = length (sources result),
      item_query_time_seconds = query_time_seconds result,
      timestamp = now,
      bookmarked = False\<rparr>"

text \<open>The message kept of a caught value: \<open>e instanceof Error ? e.message : "Query failed"\<close>.\<close>

definition failure_detail :: "thrown \<Rightarrow> js_string" where
  "failure_detail e = (case e of Error message \<Rightarrow> message | NonError \<Rightarrow> str ''Query failed'')"

text \<open>
  The two continuations after the await, applied to the store as it is at that moment:
  the rest of the \<open>try\<close> block on a result, the \<open>catch\<close> block on a thrown value.
\<close>

definition executeQuery_settle ::
  "js_string \<Rightarrow> js_string \<Rightarrow> thrown + QueryResult \<Rightarrow> QueryStore \<Rightarrow> QueryStore" where
  "executeQuery_settle uuid now outcome s =
     (case outcome of
        Inr result \<Rightarrow>
          s\<lparr>currentResult := Some result, isLoading := False,
            history := take 100 (historyItem uuid now result # history s)\<rparr>
      | Inl e \<Rightarrow>
          s\<lparr>error := Some (failure_detail e), isLoading := False\<rparr>)"

definition executeQuery ::
  "network \<Rightarrow> js_string \<Rightarrow> js_string \<Rightarrow> js_string \<Rightarrow> QueryStore \<Rightarrow> QueryStore" where
  "executeQuery net uuid now q s =
     executeQuery_settle uuid now
       (api_query net q (Some 10) (or_undefined (domainFilter s))
          (or_undefined (sourceTypeFilter s)) (or_undefined (classificationFilter s)))
       (executeQuery_begin q s)"

definition toggleBookmark :: "js_string \<Rightarrow> QueryStore \<Rightarrow> QueryStore" where
  "toggleBookmark i s =
     s\<lparr>history := map (\<lambda>item. if item_id item = i
                                then item\<lparr>bookmarked := \<not> bookmarked item\<rparr> else item)
                      (history s)\<rparr>"

definition deleteHistoryItem :: "js_string \<Rightarrow> QueryStore \<Rightarrow> QueryStore" where
  "deleteHistoryItem i s = s\<lparr>history := filter (\<lambda>item. item_id item \<noteq> i) (history s)\<rparr>"

definition clearHistory :: "QueryStore \<Rightarrow> QueryStore" where
  "clearHistory s = s\<lparr>history := []\<rparr>"

section \<open>The query form (components/query/QueryInput.tsx)\<close>

text \<open>
  \<open>handleSubmit\<close> calls \<open>executeQuery\<close> with the trimmed text when that text is truthy
  and the store is not loading; \<open>handleSubmit_call\<close> is the argument of that call, or
  \<open>None\<close> when no call is made.
\<close>

definition handleSubmit_call :: "QueryStore \<Rightarrow> js_string option" where
  "handleSubmit_call s =
     (if trim (currentQuery s) \<noteq> [] \<and> \<not> isLoading s then Some (trim (currentQuery s))
      else None)"

definition handleSubmit ::
  "network \<Rightarrow> js_string \<Rightarrow> js_string \<Rightarrow> QueryStore \<Rightarrow> QueryStore" where
  "handleSubmit net uuid now s =
     (case handleSubmit_call s of None \<Rightarrow> s | Some q \<Rightarrow> executeQuery net uuid now q s)"

definition handleSubmit_request :: "QueryStore \<Rightarrow> request option" where
  "handleSubmit_request s = map_option (executeQuery_request s) (handleSubmit_call s)"

text \<open>The values of the three \<open>select\<close> elements, and the \<open>Clear all\<close> button.\<close>

definition DOMAINS :: "js_string list" where
  "DOMAINS = [str ''eligibility'', str ''claims'', str ''benefits'', str ''pharmacy'',
              str ''compliance'', str ''providers'']"

definition domain_options :: "js_string list" where
  "domain_options = [] # DOMAINS"

definition source_type_options :: "js_string list" where
  "source_type_options = [[], str ''internal'', str ''external'']"

definition classification_options :: "js_string list" where
  "classification_options = [[], str ''PII'', str ''public'']"

definition clear_all :: "QueryStore \<Rightarrow> QueryStore" where
  "clear_all s = setClassificationFilter [] (setSourceTypeFilter [] (setDomainFilter [] s))"

section \<open>The result view (components/query/QueryResult.tsx)\<close>

record SourceCardProps =
  card_source :: Source
  index :: nat

definition source_cards :: "Source list \<Rightarrow> SourceCardProps list" where
  "source_cards srcs = map (\<lambda>(i, src). \<lparr>card_source = src, index = i + 1\<rparr>) (enumerate 0 srcs)"

text \<open>
  What the component renders: the loading skeleton, the error card with its message,
  nothing, or the result with the state of the bookmark button (absent without a latest
  history entry) and the source cards.
\<close>

datatype view =
    Skeleton
  | ErrorCard js_string
  | Nothing
  | ResultView QueryResult "bool option" "SourceCardProps list"

definition result_view :: "QueryStore \<Rightarrow> view" where
  "result_view s =
     (case currentResult s of
        None \<Rightarrow> Nothing
      | Some r \<Rightarrow>
          ResultView r
            (case history s of [] \<Rightarrow> None | latest # _ \<Rightarrow> Some (bookmarked latest))
            (if length (sources r) > 0 then source_cards (sources r) else []))"

definition QueryResult_view :: "QueryStore \<Rightarrow> view" where
  "QueryResult_view s =
     (if isLoading s then Skeleton
      else case error s of
             None \<Rightarrow> result_view s
           | Some e \<Rightarrow> if e \<noteq> [] then ErrorCard e else result_view s)"

section \<open>All actions of the store\<close>

datatype action =
    SetQuery js_string
  | SetDomainFilter js_string
  | SetSourceTypeFilter js_string
  | SetClassificationFilter js_string
  | ClearResult
  | ExecuteQuery network js_string js_string js_string
  | ToggleBookmark js_string
  | DeleteHistoryItem js_string
  | ClearHistory

fun step :: "QueryStore \<Rightarrow> action \<Rightarrow> QueryStore" where
  "step s (SetQuery q) = setQuery q s"
| "step s (SetDomainFilter f) = setDomainFilter f s"
| "step s (SetSourceTypeFilter f) = setSourceTypeFilter f s"
| "step s (SetClassificationFilter f) = setClassificationFilter f s"
| "step s ClearResult = clearResult s"
| "step s (ExecuteQuery net uuid now q) = executeQuery net uuid now q s"
| "step s (ToggleBookmark i) = toggleBookmark i s"
| "step s (DeleteHistoryItem i) = deleteHistoryItem i s"
| "step s ClearHistory = clearHistory s"

definition run :: "action list \<Rightarrow> QueryStore" where
  "run acts = foldl step initial_store acts"

section \<open>The query pipeline of the server\<close>

text \<open>
  The pipeline runs on the server, behind \<open>POST /api/query\<close>: the classifier in
  \<open>backend/src/ingestion/taxonomy.py\<close>, retrieval in \<open>backend/src/rag/vector_store.py\<close>,
  filter, context, generation and orchestration in \<open>backend/src/rag/query_engine.py\<close>.
  Its strings are sequences of characters (\<open>string\<close>).
\<close>

datatype DomainTag = Eligibility | Claims | Benefits | Pharmacy | Compliance | Providers

definition all_domains :: "DomainTag list" where
  "all_domains = [Eligibility, Claims, Benefits, Pharmacy, Compliance, Providers]"

datatype SourceType = Internal | External

datatype Classification = Restricted | Public

text \<open>A filter field is a single concrete value or "any".\<close>

datatype 'a filter_field = Any | Only 'a

record ('d, 's, 'c) RetrievalFilter =
  filter_domain :: "'d filter_field"
  filter_sourceType :: "'s filter_field"
  filter_classification :: "'c filter_field"

record Document =
  doc_id :: string
  doc_text :: string
  doc_domain :: DomainTag
  doc_sourceType :: SourceType
  doc_classification :: Classification
  sourcePath :: string

record Match =
  document :: Document
  similarityScore :: real

record ContextEntry =
  citationIndex :: nat
  entry_text :: string
  entry_document :: Document

record PipelineResult =
  result_question :: string
  result_answer :: string
  result_sources :: "Match list"
  domainsSearched :: "DomainTag list"
  elapsedSeconds :: real

datatype failure = ValidationFailure string | RetrievalFailure string | GenerationFailure string

subsection \<open>Domain classifier\<close>

text \<open>
  Modelled from the spec: case folding and word characters for the whole-word,
  case-insensitive keyword matching of the classifier (ASCII letters, digits, underscore).
\<close>

definition to_lower :: "char \<Rightarrow> char" where
  "to_lower c = (let n = (of_char c :: nat) in if 65 \<le> n \<and> n \<le> 90 then char_of (n + 32) else c)"

definition is_word_char :: "char \<Rightarrow> bool" where
  "is_word_char c =
     (let n = (of_char c :: nat)
      in (48 \<le> n \<and> n \<le> 57) \<or> (65 \<le> n \<and> n \<le> 90) \<or> (97 \<le> n \<and> n \<le> 122) \<or> n = 95)"

text \<open>
  Modelled from the spec: the keyword matcher of the domain classifier (the server's
  \<open>taxonomy.py\<close>). A whole-word match of \<open>kw\<close> is an occurrence of \<open>kw\<close> that neither
  follows nor precedes a word character; \<open>prev\<close> tells whether the character before the
  current position is a word character.
\<close>

fun count_whole_word :: "bool \<Rightarrow> string \<Rightarrow> string \<Rightarrow> nat" where
  "count_whole_word prev kw [] = 0"
| "count_whole_word prev kw (c # cs) =
     (if \<not> prev \<and> take (length kw) (c # cs) = kw
         \<and> (case drop (length kw) (c # cs) of [] \<Rightarrow> True | d # _ \<Rightarrow> \<not> is_word_char d)
      then 1 else 0)
     + count_whole_word (is_word_char c) kw cs"

text \<open>
  Modelled from the spec: the match count of a domain, the number of whole-word,
  case-insensitive matches of any of its keywords within the question. The keyword table
  of \<open>taxonomy.py\<close> is the parameter \<open>keywords\<close>.
\<close>

definition match_count :: "(DomainTag \<Rightarrow> string list) \<Rightarrow> string \<Rightarrow> DomainTag \<Rightarrow> nat" where
  "match_count keywords q d =
     sum_list (map (\<lambda>kw. count_whole_word False (map to_lower kw) (map to_lower q)) (keywords d))"

text \<open>
  Modelled from the spec: \<open>classify\<close> of the domain classifier (the server's
  \<open>taxonomy.py\<close>). With the maximum match count 0 it returns the empty set; otherwise the
  domains whose count is the maximum, all of them when several are tied (the tie policy
  of the component design). The set is given as a list without repetition, in the order
  of \<open>all_domains\<close>.
\<close>

definition classify :: "(DomainTag \<Rightarrow> string list) \<Rightarrow> string \<Rightarrow> DomainTag list" where
  "classify keywords q =
     (let m = fold max (map (match_count keywords q) all_domains) 0
      in if m = 0 then [] else filter (\<lambda>d. match_count keywords q d = m) all_domains)"

subsection \<open>Retrieval filter builder\<close>

text \<open>
  Modelled from the spec: \<open>buildFilter\<close> of the retrieval filter builder (the server's
  \<open>query_engine.py\<close>). An explicit value
  wins over the classifier; without an explicit domain, a single detected domain is applied
  and several detected domains (or none) do not narrow; source type and classification
  come from the explicit input only.
\<close>

definition buildFilter ::
  "'d option \<Rightarrow> 's option \<Rightarrow> 'c option \<Rightarrow> 'd list \<Rightarrow> ('d, 's, 'c) RetrievalFilter" where
  "buildFilter explicitDomain explicitSourceType explicitClassification detectedDomains =
     \<lparr>filter_domain =
        (case explicitDomain of
           Some v \<Rightarrow> Only v
         | None \<Rightarrow> (case remdups detectedDomains of [d] \<Rightarrow> Only d | _ \<Rightarrow> Any)),
      filter_sourceType = (case explicitSourceType of Some v \<Rightarrow> Only v | None \<Rightarrow> Any),
      filter_classification = (case explicitClassification of Some v \<Rightarrow> Only v | None \<Rightarrow> Any)\<rparr>"

subsection \<open>Context assembler\<close>

text \<open>Modelled from the spec: the character budget of one document in the context.\<close>

definition text_budget :: nat where
  "text_budget = 1500"

text \<open>
  Modelled from the spec: \<open>assemble\<close> of the context assembler (the server's
  \<open>query_engine.py\<close>). Matches are taken in the
  given order with citation indices from 1, and each document text is cut to the budget.
\<close>

definition assemble :: "Match list \<Rightarrow> ContextEntry list" where
  "assemble matches =
     map (\<lambda>(i, m). \<lparr>citationIndex = i,
                      entry_text = take text_budget (doc_text (document m)),
                      entry_document = document m\<rparr>)
         (enumerate 1 matches)"

subsection \<open>External providers and the calls made to them\<close>

type_synonym query_filter = "(DomainTag, SourceType, Classification) RetrievalFilter"

record providers =
  embed :: "string \<Rightarrow> string + real list"
  search :: "real list \<Rightarrow> query_filter \<Rightarrow> int \<Rightarrow> string + Match list"
  generate_text :: "string \<Rightarrow> real \<Rightarrow> string + string"

datatype provider_call =
    EmbedCall string
  | SearchCall "real list" query_filter int
  | GenerateCall string real


subsection \<open>Vector retriever\<close>

text \<open>
  Modelled from the spec: \<open>retrieve\<close> of the vector retriever (the server's
  \<open>vector_store.py\<close>). It embeds the question and
  searches with the filter for up to \<open>k\<close> matches; a failure of either call is a
  \<open>RetrievalFailure\<close>. The second component lists the provider calls made.
\<close>

definition retrieve ::
  "providers \<Rightarrow> string \<Rightarrow> query_filter \<Rightarrow> int \<Rightarrow> (failure + Match list) \<times> provider_call list" where
  "retrieve P q flt k =
     (case embed P q of
        Inl detail \<Rightarrow> (Inl (RetrievalFailure detail), [EmbedCall q])
      | Inr v \<Rightarrow>
          (case search P v flt k of
             Inl detail \<Rightarrow> (Inl (RetrievalFailure detail), [EmbedCall q, SearchCall v flt k])
           | Inr ms \<Rightarrow> (Inr ms, [EmbedCall q, SearchCall v flt k])))"

subsection \<open>Answer generator\<close>

text \<open>
  Modelled from the spec: constants of the answer generator: the fixed low temperature, the answer given on an empty context,
  and the prompt, which tells the model to answer from the context only, labels each
  context entry by its citation index and carries the question verbatim.
\<close>

definition temperature :: real where
  "temperature = 3 / 10"

definition insufficient_information_answer :: string where
  "insufficient_information_answer =
     ''There is insufficient information in the available documents to answer this question.''"

definition show_nat :: "nat \<Rightarrow> string" where
  "show_nat n = map (\<lambda>d. char_of (48 + d)) (decimal_digits n)"

definition build_prompt :: "string \<Rightarrow> ContextEntry list \<Rightarrow> string" where
  "build_prompt q context =
     ''Answer the question using only the context below and cite sources by index.''
     @ concat (map (\<lambda>e. [CHR 0x0A] @ ''['' @ show_nat (citationIndex e) @ ''] '' @ entry_text e)
                   context)
     @ [CHR 0x0A] @ ''Question: '' @ q"

text \<open>
  Modelled from the spec: \<open>generate\<close> of the answer generator (the server's
  \<open>query_engine.py\<close>). On an empty context it
  answers with the fixed "insufficient information" message and calls no provider;
  otherwise it calls the generation provider once, at the fixed temperature, and returns
  its text unmodified or a \<open>GenerationFailure\<close>.
\<close>

definition generate ::
  "providers \<Rightarrow> string \<Rightarrow> ContextEntry list \<Rightarrow> (failure + string) \<times> provider_call list" where
  "generate P q context =
     (if context = [] then (Inr insufficient_information_answer, [])
      else let prompt = build_prompt q context
           in (case generate_text P prompt temperature of
                 Inl detail \<Rightarrow> Inl (GenerationFailure detail)
               | Inr answer_text \<Rightarrow> Inr answer_text,
               [GenerateCall prompt temperature]))"

subsection \<open>Query orchestrator\<close>

record explicit_filters =
  explicit_domain :: "DomainTag option"
  explicit_sourceType :: "SourceType option"
  explicit_classification :: "Classification option"

definition effective_domains :: "query_filter \<Rightarrow> DomainTag list" where
  "effective_domains flt = (case filter_domain flt of Any \<Rightarrow> [] | Only d \<Rightarrow> [d])"

text \<open>
  Modelled from the spec: validation of the inbound call (the request layer of the server,
  \<open>backend/api/models/requests.py\<close>). The question has 1 to 1000 characters and \<open>top_k\<close>
  is between 1 and 50; the filter values are of their enumerated types. The result is the
  \<open>ValidationFailure\<close> naming the violated constraint, or \<open>None\<close> for a valid call.
\<close>

definition validate :: "string \<Rightarrow> int \<Rightarrow> failure option" where
  "validate q k =
     (if length q < 1 \<or> 1000 < length q
      then Some (ValidationFailure ''question must have 1 to 1000 characters'')
      else if k < 1 \<or> 50 < k
      then Some (ValidationFailure ''top_k must be between 1 and 50'')
      else None)"

text \<open>
  Modelled from the spec: the time that passes between the two clock readings of the
  orchestrator, the start time and the reading taken after generation. The clock advances
  while the pipeline runs, so this time is a positive number of seconds.
\<close>

typedef duration = "{d :: real. 0 < d}"
  morphisms seconds Abs_duration
  by (rule exI [of _ 1]) simp

text \<open>
  Modelled from the spec: \<open>execute\<close> of the query orchestrator (the server's
  \<open>query_engine.py\<close>). A call that is not valid fails with its \<open>ValidationFailure\<close> before
  any provider call. Otherwise it records the start time, classifies, builds the filter,
  retrieves, assembles and generates in this order, stops at the first failure, and on
  success reads the clock again, \<open>running_time\<close> after the start, and builds the result
  with the elapsed time between the two readings. The second component lists the
  provider calls made.
\<close>

definition execute ::
  "(DomainTag \<Rightarrow> string list) \<Rightarrow> providers \<Rightarrow> real \<Rightarrow> duration \<Rightarrow> string \<Rightarrow> explicit_filters
    \<Rightarrow> int \<Rightarrow> (failure + PipelineResult) \<times> provider_call list" where
  "execute keywords P start_time running_time q explicit k =
     (case validate q k of
        Some f \<Rightarrow> (Inl f, [])
      | None \<Rightarrow>
          (let detected = classify keywords q;
               flt = buildFilter (explicit_domain explicit) (explicit_sourceType explicit)
                       (explicit_classification explicit) detected
           in case retrieve P q flt k of
                (Inl f, calls) \<Rightarrow> (Inl f, calls)
              | (Inr matches, calls) \<Rightarrow>
                  (case generate P q (assemble matches) of
                     (Inl f, calls') \<Rightarrow> (Inl f, calls @ calls')
                   | (Inr answer_text, calls') \<Rightarrow>
                       (let end_time = start_time + seconds running_time
                        in (Inr \<lparr>result_question = q,
                                 result_answer = answer_text,
                                 result_sources = matches,
                                 domainsSearched = effective_domains flt,
                                 elapsedSeconds = end_time - start_time\<rparr>,
                            calls @ calls')))))"


section \<open>Example inputs\<close>

definition example_result :: QueryResult where
  "example_result =
     \<lparr>question = str ''q'', answer = str ''a'', sources = [], domains_searched = [],
      query_time_seconds = 1\<rparr>"

definition net_answering :: "QueryResult \<Rightarrow> network" where
  "net_answering r req =
     Resolved \<lparr>ok = True, status = 200, text_body = Inr [], json_body = Inr r\<rparr>"

text \<open>A network that cannot be reached: \<open>fetch\<close> rejects with "Failed to fetch".\<close>

definition net_unreachable :: network where
  "net_unreachable req = Rejected (PlatformError 0x46 (str ''ailed to fetch''))"

text \<open>A server that answers 500 with the body "down", which is not JSON.\<close>

definition net_http_error :: network where
  "net_http_error req =
     Resolved \<lparr>ok = False, status = 500, text_body = Inr (str ''down''),
               json_body = Inl (PlatformError 0x55 (str ''nexpected token''))\<rparr>"

definition example_document :: "string \<Rightarrow> Document" where
  "example_document i =
     \<lparr>doc_id = i, doc_text = ''text of '' @ i, doc_domain = Pharmacy, doc_sourceType = External,
      doc_classification = Public, sourcePath = ''data/external/'' @ i\<rparr>"

definition example_matches :: "Match list" where
  "example_matches =
     [\<lparr>document = example_document ''a'', similarityScore = 9 / 10\<rparr>,
      \<lparr>document = example_document ''b'', similarityScore = 8 / 10\<rparr>]"

definition example_sources :: "Source list" where
  "example_sources =
     [\<lparr>source_id = str ''a'', score = 9 / 10, domain = str ''pharmacy'', source = str ''x''\<rparr>,
      \<lparr>source_id = str ''b'', score = 8 / 10, domain = str ''benefits'', source = str ''y''\<rparr>]"

definition shown_store :: QueryStore where
  "shown_store = initial_store\<lparr>currentResult := Some (example_result\<lparr>sources := example_sources\<rparr>)\<rparr>"


definition example_item :: QueryHistoryItem where
  "example_item =
     \<lparr>item_id = str ''old'', item_question = str ''q0'', item_answer = str ''a0'',
      sources_count = 3, item_query_time_seconds = 2, timestamp = str ''t0'', bookmarked = True\<rparr>"

definition full_store :: QueryStore where
  "full_store = initial_store\<lparr>history := replicate 100 example_item\<rparr>"

definition two_store :: QueryStore where
  "two_store =
     initial_store\<lparr>history :=
       [example_item\<lparr>item_id := str ''new'', bookmarked := False\<rparr>, example_item]\<rparr>"

definition example_keywords :: "DomainTag \<Rightarrow> string list" where
  "example_keywords d =
     (case d of Pharmacy \<Rightarrow> [''drug'', ''formulary''] | Benefits \<Rightarrow> [''copay''] | _ \<Rightarrow> [])"




section \<open>Actions the interface can trigger\<close>

text \<open>
  The filter setters are called by the three \<open>select\<close> elements with the value of one of
  their options, and by \<open>Clear all\<close> with the empty string; \<open>offered\<close> holds of the actions
  that the interface can trigger.
\<close>

fun offered :: "action \<Rightarrow> bool" where
  "offered (SetDomainFilter f) = (f \<in> set domain_options)"
| "offered (SetSourceTypeFilter f) = (f \<in> set source_type_options)"
| "offered (SetClassificationFilter f) = (f \<in> set classification_options)"
| "offered _ = True"

section \<open>Bookmark toggling of one entry\<close>

text \<open>The function that \<open>toggleBookmark\<close> maps over the history.\<close>

definition toggle_item :: "js_string \<Rightarrow> QueryHistoryItem \<Rightarrow> QueryHistoryItem" where
  "toggle_item i item = (if item_id item = i then item\<lparr>bookmarked := \<not> bookmarked item\<rparr> else item)"

section \<open>Requests of the client\<close>

lemma or_null_or_undefined: "or_null (or_undefined s) = (if s = [] then Null else Str s)"
  by (simp add: or_null_def or_undefined_def)

text \<open>
  C2. A query sent without a caller-specified \<open>topK\<close> goes to \<open>POST /api/query\<close> with
  \<open>top_k\<close> equal to 10, and so does every request of \<open>executeQuery\<close>, whatever the
  question and the state of the store.
\<close>

theorem top_k_is_10:
  "top_k (body (api_query_request q None d t c)) = 10
   \<and> path (api_query_request q None d t c) = ''/api/query''
   \<and> http_method (api_query_request q None d t c) = ''POST''
   \<and> top_k (body (executeQuery_request s q)) = 10
   \<and> path (executeQuery_request s q) = ''/api/query''
   \<and> http_method (executeQuery_request s q) = ''POST''"
  by (simp add: api_query_request_def executeQuery_request_def)

section \<open>A failed query\<close>


lemma api_error_nonempty: "str ''API error '' @ rest \<noteq> []"
  by (simp add: str_def)

lemma failure_detail_NonError: "failure_detail NonError \<noteq> []"
  by (simp add: failure_detail_def str_def)

lemma failure_detail_platform: "failure_detail (thrown_by_platform p) \<noteq> []"
  by (cases p) (simp add: failure_detail_def thrown_by_platform_def)

lemma number_to_string_500: "number_to_string 500 = str ''500''"
  by (simp add: number_to_string_def decimal_digits.simps str_def)

lemma fetchAPI_failure_detail:
  assumes "fetchAPI out = Inl e"
  shows "failure_detail e \<noteq> []"
proof (cases out)
  case (Rejected p)
  with assms show ?thesis
    by (auto simp: fetchAPI_def failure_detail_platform)
next
  case (Resolved res)
  show ?thesis
  proof (cases "ok res")
    case True
    with assms Resolved show ?thesis
      by (auto simp: fetchAPI_def failure_detail_platform split: sum.splits)
  next
    case False
    show ?thesis
    proof (cases "text_body res")
      case (Inl p)
      with assms Resolved False show ?thesis
        by (auto simp: fetchAPI_def failure_detail_platform)
    next
      case (Inr detail)
      with assms Resolved False have "failure_detail e
          = str ''API error '' @ number_to_string (status res) @ str '': '' @ detail"
        by (auto simp: fetchAPI_def failure_detail_def)
      then show ?thesis by (simp only: api_error_nonempty not_False_eq_True)
    qed
  qed
qed

lemma executeQuery_eq:
  "executeQuery net uuid now q s =
     executeQuery_settle uuid now (fetchAPI (net (executeQuery_request s q)))
       (executeQuery_begin q s)"
  by (simp add: executeQuery_def api_query_def executeQuery_request_def)

lemma settle_failure:
  "executeQuery_settle uuid now (Inl e) s = s\<lparr>error := Some (failure_detail e), isLoading := False\<rparr>"
  by (simp add: executeQuery_settle_def)

lemma view_error:
  "\<not> isLoading s \<Longrightarrow> error s = Some m \<Longrightarrow> m \<noteq> [] \<Longrightarrow> QueryResult_view s = ErrorCard m"
  by (simp add: QueryResult_view_def)

text \<open>
  C1. When the \<open>api.query\<close> request of \<open>executeQuery\<close> fails with the thrown value \<open>e\<close>, no
  result is produced for that query: the store ends with \<open>error\<close> set to the failure
  detail, which is not empty, and \<open>isLoading\<close> false; the history and \<open>currentResult\<close>
  are what they were before the call; and the view is the error card with that detail,
  not a result. The \<open>catch\<close> block does the same on whatever the store has become while
  the request was pending.
\<close>

theorem executeQuery_failure:
  assumes "api_query net q (Some 10) (or_undefined (domainFilter s))
             (or_undefined (sourceTypeFilter s)) (or_undefined (classificationFilter s)) = Inl e"
  shows "error (executeQuery net uuid now q s) = Some (failure_detail e)
       \<and> failure_detail e \<noteq> []
       \<and> \<not> isLoading (executeQuery net uuid now q s)
       \<and> history (executeQuery net uuid now q s) = history s
       \<and> currentResult (executeQuery net uuid now q s) = currentResult s
       \<and> QueryResult_view (executeQuery net uuid now q s) = ErrorCard (failure_detail e)
       \<and> (\<forall>s'. error (executeQuery_settle uuid now (Inl e) s') = Some (failure_detail e)
              \<and> \<not> isLoading (executeQuery_settle uuid now (Inl e) s')
              \<and> history (executeQuery_settle uuid now (Inl e) s') = history s'
              \<and> currentResult (executeQuery_settle uuid now (Inl e) s') = currentResult s'
              \<and> QueryResult_view (executeQuery_settle uuid now (Inl e) s')
                  = ErrorCard (failure_detail e))"
proof -
  let ?s' = "executeQuery net uuid now q s"
  from assms have f: "fetchAPI (net (executeQuery_request s q)) = Inl e"
    by (simp add: api_query_def executeQuery_request_def)
  then have ne: "failure_detail e \<noteq> []"
    by (rule fetchAPI_failure_detail)
  have s': "?s' = (executeQuery_begin q s)\<lparr>error := Some (failure_detail e), isLoading := False\<rparr>"
    by (simp add: executeQuery_eq f settle_failure)
  have a: "error ?s' = Some (failure_detail e)" and b: "\<not> isLoading ?s'"
    and c: "history ?s' = history s" and d: "currentResult ?s' = currentResult s"
    by (simp_all add: s' executeQuery_begin_def)
  have v: "QueryResult_view ?s' = ErrorCard (failure_detail e)"
    by (rule view_error [OF b a ne])
  have st: "error (executeQuery_settle uuid now (Inl e) s') = Some (failure_detail e)
      \<and> \<not> isLoading (executeQuery_settle uuid now (Inl e) s')
      \<and> history (executeQuery_settle uuid now (Inl e) s') = history s'
      \<and> currentResult (executeQuery_settle uuid now (Inl e) s') = currentResult s'
      \<and> QueryResult_view (executeQuery_settle uuid now (Inl e) s') = ErrorCard (failure_detail e)"
    for s'
    using ne by (simp add: settle_failure QueryResult_view_def)
  from a ne b c d v st show ?thesis by blast
qed

theorem executeQuery_failure_witness:
  "api_query net_http_error (str ''q'') (Some 10) (or_undefined (domainFilter initial_store))
      (or_undefined (sourceTypeFilter initial_store))
      (or_undefined (classificationFilter initial_store))
     = Inl (Error (str ''API error 500: down''))
   \<and> error (executeQuery net_http_error (str ''id'') (str ''t'') (str ''q'') initial_store)
     = Some (str ''API error 500: down'')
   \<and> \<not> isLoading (executeQuery net_http_error (str ''id'') (str ''t'') (str ''q'') initial_store)
   \<and> history (executeQuery net_http_error (str ''id'') (str ''t'') (str ''q'') initial_store) = []
   \<and> currentResult (executeQuery net_http_error (str ''id'') (str ''t'') (str ''q'') initial_store)
     = None
   \<and> QueryResult_view (executeQuery net_http_error (str ''id'') (str ''t'') (str ''q'') initial_store)
     = ErrorCard (str ''API error 500: down'')
   \<and> api_query net_unreachable (str ''q'') (Some 10) (or_undefined (domainFilter shown_store))
      (or_undefined (sourceTypeFilter shown_store))
      (or_undefined (classificationFilter shown_store))
     = Inl (Error (str ''Failed to fetch''))
   \<and> currentResult (executeQuery net_unreachable (str ''id'') (str ''t'') (str ''q'') shown_store)
     = currentResult shown_store
   \<and> QueryResult_view (executeQuery net_unreachable (str ''id'') (str ''t'') (str ''q'') shown_store)
     = ErrorCard (str ''Failed to fetch'')"
proof -
  have h: "api_query net_http_error (str ''q'') (Some 10) (or_undefined (domainFilter initial_store))
      (or_undefined (sourceTypeFilter initial_store))
      (or_undefined (classificationFilter initial_store))
     = Inl (Error (str ''API error 500: down''))"
    by (simp add: api_query_def fetchAPI_def net_http_error_def number_to_string_500 str_def)
  have g: "api_query net_unreachable (str ''q'') (Some 10) (or_undefined (domainFilter shown_store))
      (or_undefined (sourceTypeFilter shown_store))
      (or_undefined (classificationFilter shown_store))
     = Inl (Error (str ''Failed to fetch''))"
    by (simp add: api_query_def fetchAPI_def net_unreachable_def thrown_by_platform_def str_def)
  have d: "failure_detail (Error (str ''API error 500: down'')) = str ''API error 500: down''"
    "failure_detail (Error (str ''Failed to fetch'')) = str ''Failed to fetch''"
    by (simp_all add: failure_detail_def)
  have i: "history initial_store = []" "currentResult initial_store = None"
    by (simp_all add: initial_store_def)
  note a = executeQuery_failure [OF h, where uuid = "str ''id''" and now = "str ''t''"]
  note b = executeQuery_failure [OF g, where uuid = "str ''id''" and now = "str ''t''"]
  from a b h g show ?thesis
    by (simp add: d i)
qed

section \<open>The classification filter\<close>

lemma or_undefined_classification_options:
  "v \<in> set classification_options \<Longrightarrow>
     or_null (or_undefined v) \<in> {Null, Str (str ''PII''), Str (str ''public'')}"
  by (auto simp: classification_options_def or_null_or_undefined)

lemma executeQuery_classificationFilter [simp]:
  "classificationFilter (executeQuery net uuid now q s) = classificationFilter s"
  by (simp add: executeQuery_def executeQuery_settle_def executeQuery_begin_def split: sum.splits)

lemma step_classificationFilter:
  "offered a \<Longrightarrow> classificationFilter s \<in> set classification_options \<Longrightarrow>
     classificationFilter (step s a) \<in> set classification_options"
  by (cases a)
     (simp_all add: setQuery_def setDomainFilter_def setSourceTypeFilter_def
        setClassificationFilter_def clearResult_def toggleBookmark_def deleteHistoryItem_def
        clearHistory_def)

lemma foldl_classificationFilter:
  "\<forall>a\<in>set acts. offered a \<Longrightarrow> classificationFilter s \<in> set classification_options \<Longrightarrow>
     classificationFilter (foldl step s acts) \<in> set classification_options"
  by (induction acts arbitrary: s) (simp_all add: step_classificationFilter)

lemma request_classification:
  "classification_filter (body (executeQuery_request s q))
     = or_null (or_undefined (classificationFilter s))"
  by (simp add: executeQuery_request_def api_query_request_def)

text \<open>
  C3, as stated, fails: the classification \<open>select\<close> offers "PII", not "restricted".
  Selecting it sends \<open>classification_filter\<close> "PII", which is none of null, "restricted"
  and "public".
\<close>

theorem classification_values_counterexample:
  "str ''PII'' \<in> set classification_options
   \<and> classification_filter
        (body (executeQuery_request (run [SetClassificationFilter (str ''PII'')]) (str ''q'')))
       = Str (str ''PII'')
   \<and> Str (str ''PII'') \<notin> {Null, Str (str ''restricted''), Str (str ''public'')}"
  by (simp add: classification_options_def run_def initial_store_def setClassificationFilter_def
      executeQuery_request_def api_query_request_def or_null_def or_undefined_def str_def)

text \<open>
  C3, amended. The classification filter ranges over the values PII and public, with
  absence meaning any: the \<open>select\<close> offers exactly the empty string, "PII" and "public",
  and after any sequence of actions that the interface can trigger, the
  \<open>classification_filter\<close> sent with a query is null, "PII" or "public"; "restricted" is
  neither offered nor sent.
\<close>

theorem classification_values:
  assumes "\<forall>a\<in>set acts. offered a"
  shows "classification_filter (body (executeQuery_request (run acts) q))
           \<in> {Null, Str (str ''PII''), Str (str ''public'')}
       \<and> classification_filter (body (executeQuery_request (run acts) q))
           \<noteq> Str (str ''restricted'')
       \<and> set classification_options = {[], str ''PII'', str ''public''}
       \<and> str ''restricted'' \<notin> set classification_options"
proof -
  have "classificationFilter initial_store \<in> set classification_options"
    by (simp add: initial_store_def classification_options_def)
  with assms have "classificationFilter (run acts) \<in> set classification_options"
    unfolding run_def by (rule foldl_classificationFilter)
  then have m: "classification_filter (body (executeQuery_request (run acts) q))
           \<in> {Null, Str (str ''PII''), Str (str ''public'')}"
    by (simp only: request_classification or_undefined_classification_options)
  have r: "str ''restricted'' \<noteq> str ''PII''" "str ''restricted'' \<noteq> str ''public''"
    by (simp_all add: str_def)
  have o: "str ''restricted'' \<notin> set classification_options"
    by (simp add: classification_options_def str_def)
  have e: "set classification_options = {[], str ''PII'', str ''public''}"
    by (simp add: classification_options_def)
  from m r have n: "classification_filter (body (executeQuery_request (run acts) q))
           \<noteq> Str (str ''restricted'')"
    by auto
  show ?thesis
    by (rule conjI [OF m conjI [OF n conjI [OF e o]]])
qed

theorem classification_values_witness:
  "offered (SetQuery (str ''q'')) \<and> offered (SetClassificationFilter (str ''public''))
   \<and> classification_filter
        (body (executeQuery_request
                 (run [SetQuery (str ''q''), SetClassificationFilter (str ''public'')]) (str ''q'')))
       = Str (str ''public'')"
  using classification_values
          [of "[SetQuery (str ''q''), SetClassificationFilter (str ''public'')]" "str ''q''"]
  by (simp add: classification_options_def run_def initial_store_def setClassificationFilter_def
      setQuery_def executeQuery_request_def api_query_request_def or_null_def or_undefined_def
      str_def)

section \<open>Explicit filters\<close>






section \<open>Citation indices\<close>

lemma assemble_nth:
  "i < length m \<Longrightarrow> assemble m ! i =
     \<lparr>citationIndex = i + 1, entry_text = take text_budget (doc_text (document (m ! i))),
      entry_document = document (m ! i)\<rparr>"
  by (simp add: assemble_def nth_enumerate_eq)

lemma source_cards_nth:
  "i < length srcs \<Longrightarrow> source_cards srcs ! i = \<lparr>card_source = srcs ! i, index = i + 1\<rparr>"
  by (simp add: source_cards_def nth_enumerate_eq)

text \<open>
  C5. \<open>assemble m\<close> has as many entries as \<open>m\<close>, and entry \<open>i\<close> (from 0) carries the
  citation index \<open>i + 1\<close> and the document of \<open>m ! i\<close>. The result view labels the source
  at position \<open>i\<close> with the index \<open>i + 1\<close>, and these are the cards it shows for a result.
\<close>

theorem citation_correspondence:
  "length (assemble m) = length m
   \<and> (\<forall>i<length m. citationIndex (assemble m ! i) = i + 1
                     \<and> entry_document (assemble m ! i) = document (m ! i))
   \<and> length (source_cards srcs) = length srcs
   \<and> (\<forall>i<length srcs. index (source_cards srcs ! i) = i + 1
                        \<and> card_source (source_cards srcs ! i) = srcs ! i)
   \<and> (\<not> isLoading s \<and> error s = None \<and> currentResult s = Some r \<longrightarrow>
        (\<exists>b. QueryResult_view s = ResultView r b (source_cards (sources r))))"
  by (auto simp: assemble_nth source_cards_nth QueryResult_view_def result_view_def)
     (simp_all add: assemble_def source_cards_def)

theorem citation_correspondence_witness:
  "1 < length example_matches
   \<and> citationIndex (assemble example_matches ! 1) = 2
   \<and> entry_document (assemble example_matches ! 1) = example_document ''b''
   \<and> 1 < length example_sources
   \<and> index (source_cards example_sources ! 1) = 2
   \<and> source_id (card_source (source_cards example_sources ! 1)) = str ''b''
   \<and> \<not> isLoading shown_store \<and> error shown_store = None
   \<and> currentResult shown_store = Some (example_result\<lparr>sources := example_sources\<rparr>)
   \<and> QueryResult_view shown_store
       = ResultView (example_result\<lparr>sources := example_sources\<rparr>) None
           (source_cards example_sources)"
proof -
  have a: "1 < length example_matches \<and> 1 < length example_sources"
    by (simp add: example_matches_def example_sources_def)
  have s: "\<not> isLoading shown_store \<and> error shown_store = None
      \<and> currentResult shown_store = Some (example_result\<lparr>sources := example_sources\<rparr>)"
    by (simp add: shown_store_def initial_store_def)
  have h: "history shown_store = []"
    by (simp add: shown_store_def initial_store_def)
  note c = citation_correspondence [where m = example_matches and srcs = example_sources
      and s = shown_store and r = "example_result\<lparr>sources := example_sources\<rparr>"]
  from c a have i: "citationIndex (assemble example_matches ! 1) = 1 + 1
      \<and> entry_document (assemble example_matches ! 1) = document (example_matches ! 1)
      \<and> index (source_cards example_sources ! 1) = 1 + 1
      \<and> card_source (source_cards example_sources ! 1) = example_sources ! 1"
    by blast
  from c s obtain b where v: "QueryResult_view shown_store
      = ResultView (example_result\<lparr>sources := example_sources\<rparr>) b (source_cards example_sources)"
    by auto
  from s h have "QueryResult_view shown_store
      = ResultView (example_result\<lparr>sources := example_sources\<rparr>) None
          (if 0 < length example_sources then source_cards example_sources else [])"
    by (simp add: QueryResult_view_def result_view_def)
  with v have b: "b = None" by simp
  from i have j: "citationIndex (assemble example_matches ! 1) = 2
      \<and> entry_document (assemble example_matches ! 1) = example_document ''b''
      \<and> index (source_cards example_sources ! 1) = 2
      \<and> source_id (card_source (source_cards example_sources ! 1)) = str ''b''"
    by (simp add: example_matches_def example_sources_def)
  from a j s v b show ?thesis by blast
qed

section \<open>Submitting the form\<close>

lemma trim_Nil_iff: "trim s = [] \<longleftrightarrow> (\<forall>c\<in>set s. is_white_space c)"
  by (simp add: trim_def dropWhile_eq_Nil_conv) (metis dropWhile_eq_Nil_conv set_dropWhileD dropWhile_idem)

lemma last_dropWhile: "dropWhile P xs \<noteq> [] \<Longrightarrow> last (dropWhile P xs) = last xs"
  by (induction xs) auto

lemma trim_ends:
  assumes "trim s \<noteq> []"
  shows "\<not> is_white_space (hd (trim s))" and "\<not> is_white_space (last (trim s))"
proof -
  let ?t = "dropWhile is_white_space s"
  let ?u = "dropWhile is_white_space (rev ?t)"
  from assms have u: "?u \<noteq> []" by (simp add: trim_def)
  have t: "?t \<noteq> []"
  proof
    assume e: "?t = []"
    have "?u = []" unfolding e by simp
    with u show False by contradiction
  qed
  have "last (trim s) = hd ?u"
    using u by (simp add: trim_def last_rev)
  with u show "\<not> is_white_space (last (trim s))"
    by (simp add: hd_dropWhile)
  have "hd (trim s) = last ?u"
    using u by (simp add: trim_def hd_rev)
  also have "\<dots> = last (rev ?t)" using u by (rule last_dropWhile)
  also have "\<dots> = hd ?t" using t by (simp add: last_rev)
  finally show "\<not> is_white_space (hd (trim s))"
    using t by (simp add: hd_dropWhile)
qed

text \<open>
  C8. When the text of the form is empty or only whitespace, \<open>handleSubmit\<close> does not call
  \<open>executeQuery\<close>: no request is made and the store is unchanged. When it does call
  \<open>executeQuery\<close>, the question is the trimmed text, it has length at least 1 and neither
  starts nor ends with whitespace, and it is the question of the request.
\<close>

theorem submit_guard:
  "((\<forall>c\<in>set (currentQuery s). is_white_space c) \<longrightarrow>
       handleSubmit_call s = None \<and> handleSubmit_request s = None
       \<and> handleSubmit net uuid now s = s)
   \<and> (handleSubmit_call s = Some q \<longrightarrow>
       q = trim (currentQuery s) \<and> 1 \<le> length q
       \<and> \<not> is_white_space (hd q) \<and> \<not> is_white_space (last q)
       \<and> \<not> isLoading s
       \<and> handleSubmit_request s = Some (executeQuery_request s q)
       \<and> body_question (body (executeQuery_request s q)) = q
       \<and> handleSubmit net uuid now s = executeQuery net uuid now q s)"
proof (intro conjI impI)
  assume w: "\<forall>c\<in>set (currentQuery s). is_white_space c"
  then have "trim (currentQuery s) = []" by (simp add: trim_Nil_iff)
  then show "handleSubmit_call s = None" "handleSubmit_request s = None"
    "handleSubmit net uuid now s = s"
    by (simp_all add: handleSubmit_call_def handleSubmit_request_def handleSubmit_def)
next
  assume c: "handleSubmit_call s = Some q"
  then have q: "q = trim (currentQuery s)" and ne: "trim (currentQuery s) \<noteq> []"
    and l: "\<not> isLoading s"
    by (simp_all add: handleSubmit_call_def split: if_splits)
  show "q = trim (currentQuery s)" by (rule q)
  from q ne have "q \<noteq> []" by simp
  then show "1 \<le> length q" by (simp add: Suc_le_eq)
  show "\<not> is_white_space (hd q)" "\<not> is_white_space (last q)"
    using trim_ends [OF ne] q by simp_all
  show "\<not> isLoading s" by (rule l)
  show "handleSubmit_request s = Some (executeQuery_request s q)"
    using c by (simp add: handleSubmit_request_def)
  show "body_question (body (executeQuery_request s q)) = q"
    by (simp add: executeQuery_request_def api_query_request_def)
  show "handleSubmit net uuid now s = executeQuery net uuid now q s"
    using c by (simp add: handleSubmit_def)
qed

lemma is_white_space_simps:
  "is_white_space 0x20" "is_white_space 0x09" "\<not> is_white_space 0x68" "\<not> is_white_space 0x69"
  by (simp_all add: is_white_space_def)

theorem submit_guard_witness:
  "(is_white_space 0x20 \<and> is_white_space 0x09)
   \<and> handleSubmit_call (setQuery [0x20, 0x09] initial_store) = None
   \<and> handleSubmit_request (setQuery [0x20, 0x09] initial_store) = None
   \<and> handleSubmit_call (setQuery [0x20, 0x68, 0x69, 0x20] initial_store) = Some [0x68, 0x69]
   \<and> trim [0x20, 0x68, 0x69, 0x20] = [0x68, 0x69]
   \<and> body_question (body (executeQuery_request (setQuery [0x20, 0x68, 0x69, 0x20] initial_store)
        [0x68, 0x69])) = [0x68, 0x69]"
proof -
  have a: "\<forall>c\<in>set (currentQuery (setQuery [0x20, 0x09] initial_store)). is_white_space c"
    by (simp add: setQuery_def is_white_space_simps)
  have t: "trim [0x20, 0x68, 0x69, 0x20] = [0x68, 0x69]"
    by (simp add: trim_def is_white_space_simps)
  have b: "handleSubmit_call (setQuery [0x20, 0x68, 0x69, 0x20] initial_store) = Some [0x68, 0x69]"
    by (simp add: handleSubmit_call_def setQuery_def t initial_store_def)
  have w: "is_white_space 0x20 \<and> is_white_space 0x09"
    by (simp add: is_white_space_simps)
  from a submit_guard [where s = "setQuery [0x20, 0x09] initial_store"]
  have c1: "handleSubmit_call (setQuery [0x20, 0x09] initial_store) = None
      \<and> handleSubmit_request (setQuery [0x20, 0x09] initial_store) = None"
    by blast
  from b submit_guard [where s = "setQuery [0x20, 0x68, 0x69, 0x20] initial_store"
        and q = "[0x68, 0x69]"]
  have c2: "body_question (body (executeQuery_request
        (setQuery [0x20, 0x68, 0x69, 0x20] initial_store) [0x68, 0x69])) = [0x68, 0x69]"
    by blast
  from w c1 b t c2 show ?thesis by blast
qed

section \<open>The history\<close>

lemma executeQuery_success:
  "fetchAPI (net (executeQuery_request s q)) = Inr r \<Longrightarrow>
     executeQuery net uuid now q s =
       (executeQuery_begin q s)\<lparr>currentResult := Some r, isLoading := False,
          history := take 100 (historyItem uuid now r # history s)\<rparr>"
  by (simp add: executeQuery_eq executeQuery_settle_def executeQuery_begin_def)

lemma executeQuery_history_cases:
  "history (executeQuery net uuid now q s) = history s
   \<or> (\<exists>r. history (executeQuery net uuid now q s) = take 100 (historyItem uuid now r # history s))"
proof (cases "fetchAPI (net (executeQuery_request s q))")
  case (Inl e)
  then show ?thesis
    by (simp add: executeQuery_eq executeQuery_settle_def executeQuery_begin_def)
next
  case (Inr r)
  then have "history (executeQuery net uuid now q s)
      = take 100 (historyItem uuid now r # history s)"
    by (simp add: executeQuery_eq executeQuery_settle_def executeQuery_begin_def)
  then show ?thesis by blast
qed

lemma toggleBookmark_length [simp]: "length (history (toggleBookmark i s)) = length (history s)"
  by (simp add: toggleBookmark_def)

lemma deleteHistoryItem_length: "length (history (deleteHistoryItem i s)) \<le> length (history s)"
  by (simp add: deleteHistoryItem_def)

lemma clearHistory_length [simp]: "length (history (clearHistory s)) = 0"
  by (simp add: clearHistory_def)

lemma step_history_bound:
  assumes "length (history s) \<le> 100"
  shows "length (history (step s a)) \<le> 100"
proof (cases a)
  case (ExecuteQuery net uuid now q)
  from executeQuery_history_cases [of net uuid now q s] assms show ?thesis
    unfolding ExecuteQuery by auto
next
  case (DeleteHistoryItem i)
  with assms deleteHistoryItem_length [of i s] show ?thesis by simp
qed (use assms in \<open>simp_all add: setQuery_def setDomainFilter_def setSourceTypeFilter_def
        setClassificationFilter_def clearResult_def\<close>)

lemma foldl_history_bound:
  "length (history s) \<le> 100 \<Longrightarrow> length (history (foldl step s acts)) \<le> 100"
  by (induction acts arbitrary: s) (simp_all add: step_history_bound)

text \<open>
  C9. The history never has more than 100 entries: not after any sequence of actions from
  the initial store, and no action takes a history of at most 100 entries beyond 100. A
  successful \<open>executeQuery\<close> puts one new entry in front of the history (cut to 100
  entries); the entry is not bookmarked, its \<open>sources_count\<close> is the number of sources
  of the result, and its question, answer and query time are those of the result.
  \<open>toggleBookmark\<close>, \<open>deleteHistoryItem\<close> and \<open>clearHistory\<close> never make the history
  longer.
\<close>

theorem history_bounded:
  "length (history (run acts)) \<le> 100
   \<and> (length (history s) \<le> 100 \<longrightarrow> length (history (step s a)) \<le> 100)
   \<and> (fetchAPI (net (executeQuery_request s q)) = Inr r \<longrightarrow>
        history (executeQuery net uuid now q s) = take 100 (historyItem uuid now r # history s)
        \<and> history (executeQuery net uuid now q s) = historyItem uuid now r # take 99 (history s)
        \<and> length (history (executeQuery net uuid now q s)) = min 100 (length (history s) + 1)
        \<and> \<not> bookmarked (hd (history (executeQuery net uuid now q s)))
        \<and> sources_count (hd (history (executeQuery net uuid now q s))) = length (sources r)
        \<and> item_question (hd (history (executeQuery net uuid now q s))) = question r
        \<and> item_answer (hd (history (executeQuery net uuid now q s))) = answer r
        \<and> item_query_time_seconds (hd (history (executeQuery net uuid now q s)))
            = query_time_seconds r
        \<and> currentResult (executeQuery net uuid now q s) = Some r)
   \<and> (length (history s) \<le> 100 \<longrightarrow>
        length (history (executeQuery_settle uuid now outcome s)) \<le> 100)
   \<and> length (history (toggleBookmark i s)) \<le> length (history s)
   \<and> length (history (deleteHistoryItem i s)) \<le> length (history s)
   \<and> length (history (clearHistory s)) \<le> length (history s)"
proof -
  have "length (history initial_store) \<le> 100" by (simp add: initial_store_def)
  then have a: "length (history (run acts)) \<le> 100"
    unfolding run_def by (rule foldl_history_bound)
  have b: "length (history s) \<le> 100 \<longrightarrow> length (history (step s a)) \<le> 100"
    by (simp add: step_history_bound)
  have c: "history (executeQuery net uuid now q s) = take 100 (historyItem uuid now r # history s)
        \<and> history (executeQuery net uuid now q s) = historyItem uuid now r # take 99 (history s)
        \<and> length (history (executeQuery net uuid now q s)) = min 100 (length (history s) + 1)
        \<and> \<not> bookmarked (hd (history (executeQuery net uuid now q s)))
        \<and> sources_count (hd (history (executeQuery net uuid now q s))) = length (sources r)
        \<and> item_question (hd (history (executeQuery net uuid now q s))) = question r
        \<and> item_answer (hd (history (executeQuery net uuid now q s))) = answer r
        \<and> item_query_time_seconds (hd (history (executeQuery net uuid now q s)))
            = query_time_seconds r
        \<and> currentResult (executeQuery net uuid now q s) = Some r"
    if "fetchAPI (net (executeQuery_request s q)) = Inr r"
  proof -
    have t: "take 100 (x # xs) = x # take 99 xs" for x :: QueryHistoryItem and xs
      by (simp add: take_Cons')
    show ?thesis
      using executeQuery_success [where net = net and s = s and q = q and r = r, OF that]
      by (simp add: t historyItem_def min_def executeQuery_begin_def)
  qed
  have d: "length (history (toggleBookmark i s)) \<le> length (history s)"
    "length (history (deleteHistoryItem i s)) \<le> length (history s)"
    "length (history (clearHistory s)) \<le> length (history s)"
    by (simp_all add: deleteHistoryItem_length)
  have e: "length (history s) \<le> 100 \<longrightarrow>
        length (history (executeQuery_settle uuid now outcome s)) \<le> 100"
    by (cases outcome) (simp_all add: executeQuery_settle_def)
  from a b c d e show ?thesis by blast
qed

theorem history_bounded_witness:
  "length (history full_store) \<le> 100
   \<and> fetchAPI (net_answering example_result (executeQuery_request full_store (str ''q'')))
       = Inr example_result
   \<and> length (history (step full_store
        (ExecuteQuery (net_answering example_result) (str ''id'') (str ''t'') (str ''q'')))) \<le> 100
   \<and> length (history (executeQuery (net_answering example_result) (str ''id'') (str ''t'')
        (str ''q'') full_store)) = 100
   \<and> hd (history (executeQuery (net_answering example_result) (str ''id'') (str ''t'')
        (str ''q'') full_store))
       = \<lparr>item_id = str ''id'', item_question = str ''q'', item_answer = str ''a'',
          sources_count = 0, item_query_time_seconds = 1, timestamp = str ''t'',
          bookmarked = False\<rparr>"
proof -
  have l: "length (history full_store) \<le> 100"
    by (simp add: full_store_def)
  have f: "fetchAPI (net_answering example_result (executeQuery_request full_store (str ''q'')))
       = Inr example_result"
    by (simp add: fetchAPI_def net_answering_def)
  note h = history_bounded [where s = full_store and net = "net_answering example_result"
      and q = "str ''q''" and r = example_result and uuid = "str ''id''" and now = "str ''t''"
      and a = "ExecuteQuery (net_answering example_result) (str ''id'') (str ''t'') (str ''q'')"]
  from h l have b: "length (history (step full_store
        (ExecuteQuery (net_answering example_result) (str ''id'') (str ''t'') (str ''q'')))) \<le> 100"
    by blast
  from h f have e: "history (executeQuery (net_answering example_result) (str ''id'') (str ''t'')
        (str ''q'') full_store)
      = historyItem (str ''id'') (str ''t'') example_result # take 99 (history full_store)"
    and n: "length (history (executeQuery (net_answering example_result) (str ''id'') (str ''t'')
        (str ''q'') full_store)) = min 100 (length (history full_store) + 1)"
    by blast+
  from n have n': "length (history (executeQuery (net_answering example_result) (str ''id'')
        (str ''t'') (str ''q'') full_store)) = 100"
    by (simp add: full_store_def)
  from e have e': "hd (history (executeQuery (net_answering example_result) (str ''id'') (str ''t'')
        (str ''q'') full_store))
       = \<lparr>item_id = str ''id'', item_question = str ''q'', item_answer = str ''a'',
          sources_count = 0, item_query_time_seconds = 1, timestamp = str ''t'',
          bookmarked = False\<rparr>"
    by (simp add: historyItem_def example_result_def)
  from l f b n' e' show ?thesis by blast
qed

section \<open>Bookmarks\<close>

lemma toggleBookmark_map: "toggleBookmark i s = s\<lparr>history := map (toggle_item i) (history s)\<rparr>"
  by (simp add: toggleBookmark_def toggle_item_def)

lemma toggle_item_twice: "toggle_item i (toggle_item i item) = item"
  by (simp add: toggle_item_def)

lemma toggle_item_other: "item_id item \<noteq> i \<Longrightarrow> toggle_item i item = item"
  by (simp add: toggle_item_def)

text \<open>
  C10. \<open>toggleBookmark i\<close> keeps the length of the history and changes nothing else in the
  store; an entry whose id is \<open>i\<close> has its \<open>bookmarked\<close> flag flipped and its other fields
  kept, every other entry is kept; applying it twice restores the store; when no entry has
  the id \<open>i\<close> the store is unchanged; and when the ids are distinct at most one entry
  changes.
\<close>

theorem toggleBookmark_flips:
  "length (history (toggleBookmark i s)) = length (history s)
   \<and> (\<forall>k<length (history s).
        history (toggleBookmark i s) ! k
          = (if item_id (history s ! k) = i
             then (history s ! k)\<lparr>bookmarked := \<not> bookmarked (history s ! k)\<rparr>
             else history s ! k))
   \<and> toggleBookmark i s = s\<lparr>history := history (toggleBookmark i s)\<rparr>
   \<and> toggleBookmark i (toggleBookmark i s) = s
   \<and> (i \<notin> item_id ` set (history s) \<longrightarrow> toggleBookmark i s = s)
   \<and> (distinct (map item_id (history s)) \<longrightarrow>
        (\<forall>j k. j < length (history s) \<and> k < length (history s)
               \<and> history (toggleBookmark i s) ! j \<noteq> history s ! j
               \<and> history (toggleBookmark i s) ! k \<noteq> history s ! k \<longrightarrow> j = k))"
proof -
  have a: "length (history (toggleBookmark i s)) = length (history s)"
    by (simp add: toggleBookmark_map)
  have b: "\<forall>k<length (history s).
        history (toggleBookmark i s) ! k
          = (if item_id (history s ! k) = i
             then (history s ! k)\<lparr>bookmarked := \<not> bookmarked (history s ! k)\<rparr>
             else history s ! k)"
    by (simp add: toggleBookmark_def)
  have c: "toggleBookmark i s = s\<lparr>history := history (toggleBookmark i s)\<rparr>"
    by (simp add: toggleBookmark_def)
  have d: "toggleBookmark i (toggleBookmark i s) = s"
    by (simp add: toggleBookmark_map comp_def toggle_item_twice)
  have e: "toggleBookmark i s = s" if "i \<notin> item_id ` set (history s)"
  proof -
    have "map (toggle_item i) (history s) = history s"
      using that by (intro map_idI toggle_item_other) auto
    then show ?thesis by (simp add: toggleBookmark_map)
  qed
  have f: "j = k"
    if "distinct (map item_id (history s))" "j < length (history s)" "k < length (history s)"
      "history (toggleBookmark i s) ! j \<noteq> history s ! j"
      "history (toggleBookmark i s) ! k \<noteq> history s ! k" for j k
  proof -
    from b that have "item_id (history s ! j) = i" "item_id (history s ! k) = i"
      by (auto split: if_splits)
    then have "map item_id (history s) ! j = map item_id (history s) ! k"
      using that by simp
    moreover have "j < length (map item_id (history s))" "k < length (map item_id (history s))"
      using that by simp_all
    ultimately show ?thesis
      using that(1) nth_eq_iff_index_eq by blast
  qed
  from a b c d e f show ?thesis by blast
qed

theorem toggleBookmark_flips_witness:
  "0 < length (history two_store)
   \<and> item_id (history two_store ! 0) = str ''new''
   \<and> distinct (map item_id (history two_store))
   \<and> str ''none'' \<notin> item_id ` set (history two_store)
   \<and> history (toggleBookmark (str ''new'') two_store)
       = [example_item\<lparr>item_id := str ''new'', bookmarked := True\<rparr>, example_item]
   \<and> toggleBookmark (str ''new'') (toggleBookmark (str ''new'') two_store) = two_store
   \<and> toggleBookmark (str ''none'') two_store = two_store"
proof -
  have ids: "str ''new'' \<noteq> str ''old''" "str ''none'' \<noteq> str ''old''"
    "str ''none'' \<noteq> str ''new''"
    by (simp_all add: str_def)
  have h: "history two_store
      = [example_item\<lparr>item_id := str ''new'', bookmarked := False\<rparr>, example_item]"
    by (simp add: two_store_def)
  have i: "item_id example_item = str ''old''"
    by (simp add: example_item_def)
  have a: "0 < length (history two_store)" "item_id (history two_store ! 0) = str ''new''"
    "distinct (map item_id (history two_store))"
    "str ''none'' \<notin> item_id ` set (history two_store)"
    using ids by (simp_all add: h i)
  note t = toggleBookmark_flips [of "str ''new''" two_store]
  note u = toggleBookmark_flips [of "str ''none''" two_store]
  from t have l: "length (history (toggleBookmark (str ''new'') two_store)) = 2"
    by (simp add: h)
  from t a have k0: "history (toggleBookmark (str ''new'') two_store) ! 0
      = example_item\<lparr>item_id := str ''new'', bookmarked := True\<rparr>"
    by (simp add: h)
  from t have k1: "history (toggleBookmark (str ''new'') two_store) ! 1 = example_item"
    using ids by (simp add: h i)
  from l k0 k1 have e: "history (toggleBookmark (str ''new'') two_store)
       = [example_item\<lparr>item_id := str ''new'', bookmarked := True\<rparr>, example_item]"
    by (simp add: list_eq_iff_nth_eq less_Suc_eq numeral_2_eq_2)
  from t have d: "toggleBookmark (str ''new'') (toggleBookmark (str ''new'') two_store) = two_store"
    by blast
  from u a have n: "toggleBookmark (str ''none'') two_store = two_store"
    by blast
  from a e d n show ?thesis by blast
qed

section \<open>Ties in the domain classifier\<close>

lemma fold_max_ge: "(a::nat) \<le> fold max xs a"
  by (induction xs arbitrary: a) (auto intro: order_trans [OF max.cobounded2])

lemma fold_max_ge_elem: "(x::nat) \<in> set xs \<Longrightarrow> x \<le> fold max xs a"
proof (induction xs arbitrary: a)
  case Nil
  then show ?case by simp
next
  case (Cons y ys)
  show ?case
  proof (cases "x = y")
    case True
    have "x \<le> max y a" using True by simp
    also have "\<dots> \<le> fold max ys (max y a)" by (rule fold_max_ge)
    finally show ?thesis by simp
  next
    case False
    with Cons show ?thesis by simp
  qed
qed

lemma fold_max_cases: "fold max xs (a::nat) = a \<or> fold max xs a \<in> set xs"
proof (induction xs arbitrary: a)
  case Nil
  show ?case by simp
next
  case (Cons y ys)
  from Cons [of "max y a"] show ?case
    by (auto simp: max_def split: if_splits)
qed

lemma set_all_domains: "set all_domains = UNIV"
proof -
  have "d \<in> set all_domains" for d
    by (cases d) (simp_all add: all_domains_def)
  then show ?thesis by blast
qed

lemma distinct_all_domains: "distinct all_domains"
  by (simp add: all_domains_def)

lemma classify_maximum:
  assumes "\<forall>d. match_count kw q d \<le> m" and "match_count kw q d1 = m"
  shows "fold max (map (match_count kw q) all_domains) 0 = m"
proof -
  let ?f = "fold max (map (match_count kw q) all_domains) 0"
  have "match_count kw q d1 \<in> set (map (match_count kw q) all_domains)"
    by (simp add: set_all_domains)
  then have "match_count kw q d1 \<le> ?f" by (rule fold_max_ge_elem)
  with assms have ge: "m \<le> ?f" by simp
  have "?f = 0 \<or> ?f \<in> set (map (match_count kw q) all_domains)"
    by (rule fold_max_cases)
  with assms have "?f \<le> m" by auto
  with ge show ?thesis by simp
qed

text \<open>
  C7. When two or more domains are tied at the maximum match count \<open>m\<close> and \<open>m\<close> is at
  least 1, \<open>classify\<close> returns the set of all domains whose count is \<open>m\<close>: both tied
  domains are in it, so it is not a single domain.
\<close>

theorem classify_ties:
  assumes "d1 \<noteq> d2"
    and "match_count kw q d1 = m" and "match_count kw q d2 = m"
    and "\<forall>d. match_count kw q d \<le> m" and "1 \<le> m"
  shows "set (classify kw q) = {d. match_count kw q d = m}
       \<and> d1 \<in> set (classify kw q) \<and> d2 \<in> set (classify kw q)
       \<and> distinct (classify kw q) \<and> 2 \<le> length (classify kw q)"
proof -
  have mx: "fold max (map (match_count kw q) all_domains) 0 = m"
    using assms(4) assms(2) by (rule classify_maximum)
  have c: "classify kw q = filter (\<lambda>d. match_count kw q d = m) all_domains"
    using assms(5) by (simp add: classify_def mx)
  have s: "set (classify kw q) = {d. match_count kw q d = m}"
    by (simp add: c set_all_domains)
  have d: "distinct (classify kw q)"
    by (simp add: c distinct_all_domains)
  from s assms have i: "d1 \<in> set (classify kw q)" "d2 \<in> set (classify kw q)"
    by simp_all
  have "card {d1, d2} \<le> card (set (classify kw q))"
    using i by (intro card_mono) simp_all
  with assms(1) d have l: "2 \<le> length (classify kw q)"
    by (simp add: distinct_card)
  from s i d l show ?thesis by blast
qed

lemma example_counts:
  "match_count example_keywords ''Drug copay?'' Eligibility = 0"
  "match_count example_keywords ''Drug copay?'' Claims = 0"
  "match_count example_keywords ''Drug copay?'' Benefits = 1"
  "match_count example_keywords ''Drug copay?'' Pharmacy = 1"
  "match_count example_keywords ''Drug copay?'' Compliance = 0"
  "match_count example_keywords ''Drug copay?'' Providers = 0"
  by code_simp+

theorem classify_ties_witness:
  "Pharmacy \<noteq> Benefits
   \<and> match_count example_keywords ''Drug copay?'' Pharmacy = 1
   \<and> match_count example_keywords ''Drug copay?'' Benefits = 1
   \<and> set (classify example_keywords ''Drug copay?'') = {Benefits, Pharmacy}
   \<and> 2 \<le> length (classify example_keywords ''Drug copay?'')"
proof -
  have le: "\<forall>d. match_count example_keywords ''Drug copay?'' d \<le> 1"
  proof
    fix d show "match_count example_keywords ''Drug copay?'' d \<le> 1"
      by (cases d) (simp_all add: example_counts)
  qed
  have ne: "Pharmacy \<noteq> Benefits" by simp
  note t = classify_ties [OF ne example_counts(4) example_counts(3) le order_refl]
  have "{d. match_count example_keywords ''Drug copay?'' d = 1} = {Benefits, Pharmacy}"
  proof -
    have "(match_count example_keywords ''Drug copay?'' d = 1) = (d = Benefits \<or> d = Pharmacy)" for d
      by (cases d) (simp_all add: example_counts)
    then show ?thesis by blast
  qed
  with t ne example_counts show ?thesis by simp
qed

section \<open>A query without matches\<close>



lemma retrieve_generate_text [simp]:
  "retrieve (P\<lparr>generate_text := g\<rparr>) q flt k = retrieve P q flt k"
  by (simp add: retrieve_def split: sum.splits)





lemma execute_invalid: "validate q k = Some f \<Longrightarrow> execute kw P t0 d q ex k = (Inl f, [])"
  by (simp add: execute_def)




end
